theory Spec2Isabelle
  imports Complex_Main
begin

section \<open>Stock ledger of the construction-site dashboard\<close>

text \<open>
  The development embeds the storage layer of the application (\<^verbatim>\<open>server/storage.ts\<close>,
  class \<^verbatim>\<open>MemStorage\<close>; \<^verbatim>\<open>server/dbStorage.ts\<close>, class \<^verbatim>\<open>DatabaseStorage\<close>), the row
  types of \<^verbatim>\<open>shared/schema.ts\<close> and the stock classification of the material list
  (\<^verbatim>\<open>MaterialList.tsx\<close>, \<^verbatim>\<open>getStockStatus\<close>).

  Conventions of the embedding.
  \<^item> A JavaScript \<^verbatim>\<open>number\<close> that holds a quantity is a finite real number and \<^verbatim>\<open>+\<close>,
    \<^verbatim>\<open>-\<close>, \<^verbatim>\<open><\<close> on such numbers are the exact operations: rounding of binary
    floating point, overflow and the sign of zero are not represented. Division is the one
    place where the source can leave the finite numbers (a zero divisor), so its result has
    a type of its own, \<open>number\<close> below.
  \<^item> Identifiers (\<^verbatim>\<open>serial\<close>, \<^verbatim>\<open>integer\<close>) are integers; a \<^verbatim>\<open>Date\<close> is its time value,
    an integer number of milliseconds.
  \<^item> \<^verbatim>\<open>new Date()\<close> reads the clock; every operation that does so takes the value read as
    its first argument \<open>now\<close>.
  \<^item> An \<^verbatim>\<open>async\<close> method of \<^verbatim>\<open>MemStorage\<close> awaits only methods of the same object, which are
    settled at once, so a call runs to completion; it is a function from the state before
    to its result and the state after.
\<close>

subsection \<open>Rows of \<^verbatim>\<open>shared/schema.ts\<close>\<close>

type_synonym timestamp = int

text \<open>Table \<^verbatim>\<open>materials\<close>, type \<^verbatim>\<open>Material\<close>.\<close>

record Material =
  m_id :: int
  m_siteId :: int
  m_name :: string
  m_category :: string
  m_unit :: string
  m_quantity :: real
  m_minStockLevel :: real
  m_lastUpdated :: timestamp

text \<open>
  \<^verbatim>\<open>InsertMaterial\<close>: the columns of \<^verbatim>\<open>materials\<close> without \<^verbatim>\<open>id\<close> and \<^verbatim>\<open>lastUpdated\<close>. The two
  columns that have a default, \<^verbatim>\<open>quantity\<close> and \<^verbatim>\<open>minStockLevel\<close>, are taken as given in every
  insert, as they are in the material form and in the sample data.
\<close>

record InsertMaterial =
  im_siteId :: int
  im_name :: string
  im_category :: string
  im_unit :: string
  im_quantity :: real
  im_minStockLevel :: real

text \<open>\<^verbatim>\<open>Partial<InsertMaterial>\<close>: every field may be absent.\<close>

record PartialInsertMaterial =
  p_siteId :: "int option"
  p_name :: "string option"
  p_category :: "string option"
  p_unit :: "string option"
  p_quantity :: "real option"
  p_minStockLevel :: "real option"

text \<open>
  Table \<^verbatim>\<open>material_transactions\<close>, type \<^verbatim>\<open>MaterialTransaction\<close>. The column
  \<^verbatim>\<open>transaction_type\<close> is \<^verbatim>\<open>text\<close> and \<^verbatim>\<open>quantity\<close> is \<^verbatim>\<open>real\<close>: the insert schema derived
  from the table accepts every string and every number there. \<^verbatim>\<open>date\<close> has a default and
  \<^verbatim>\<open>notes\<close> is nullable, so both may be absent from an insert.
\<close>

record MaterialTransaction =
  t_id :: int
  t_materialId :: int
  t_siteId :: int
  t_date :: "timestamp option"
  t_transactionType :: string
  t_quantity :: real
  t_notes :: "string option"
  t_recordedBy :: string

record InsertMaterialTransaction =
  it_materialId :: int
  it_siteId :: int
  it_date :: "timestamp option"
  it_transactionType :: string
  it_quantity :: real
  it_notes :: "string option"
  it_recordedBy :: string

text \<open>
  The other entities (sites, workers, attendance, expenses, photos, notes, users) are only
  spread, stored and deleted by the storage layer. Their insert types all omit \<^verbatim>\<open>id\<close>; an
  insert value is kept as an object, that is a list of property names and values in
  insertion order, and a stored row is the object together with its \<^verbatim>\<open>id\<close>.
\<close>

datatype jsvalue =
  JNumber real | JString string | JBoolean bool | JDate timestamp | JNull

type_synonym jsobject = "(string \<times> jsvalue) list"

record entity =
  e_id :: int
  e_props :: jsobject

subsection \<open>The JavaScript \<^verbatim>\<open>Map\<close>\<close>

text \<open>
  A \<^verbatim>\<open>Map\<close> keeps its entries in insertion order; \<^verbatim>\<open>set\<close> on a present key replaces the
  value in place, on an absent key it appends; \<^verbatim>\<open>delete\<close> removes the entry and tells
  whether there was one.
\<close>

abbreviation Map_get :: "('k \<times> 'v) list \<Rightarrow> 'k \<Rightarrow> 'v option" where
  "Map_get m k \<equiv> map_of m k"

primrec Map_set :: "'k \<Rightarrow> 'v \<Rightarrow> ('k \<times> 'v) list \<Rightarrow> ('k \<times> 'v) list" where
  "Map_set k v [] = [(k, v)]"
| "Map_set k v (e # es) = (if fst e = k then (k, v) # es else e # Map_set k v es)"

definition Map_has :: "('k \<times> 'v) list \<Rightarrow> 'k \<Rightarrow> bool" where
  "Map_has m k = (Map_get m k \<noteq> None)"

definition Map_delete :: "'k \<Rightarrow> ('k \<times> 'v) list \<Rightarrow> bool \<times> ('k \<times> 'v) list" where
  "Map_delete k m = (Map_has m k, filter (\<lambda>e. fst e \<noteq> k) m)"

definition Map_values :: "('k \<times> 'v) list \<Rightarrow> 'v list" where
  "Map_values m = map snd m"

text \<open>Object spread \<^verbatim>\<open>{...a, ...b}\<close>: the properties of \<open>b\<close> are set on a copy of \<open>a\<close>, in order.\<close>

definition spread :: "jsobject \<Rightarrow> jsobject \<Rightarrow> jsobject" where
  "spread a b = foldl (\<lambda>acc e. Map_set (fst e) (snd e) acc) a b"

text \<open>\<^verbatim>\<open>{ ...existingMaterial, ...material }\<close> on the typed rows: a present field overrides.\<close>

definition spreadMaterial :: "Material \<Rightarrow> PartialInsertMaterial \<Rightarrow> Material" where
  "spreadMaterial existingMaterial material =
     existingMaterial
       \<lparr> m_siteId := (case p_siteId material of None \<Rightarrow> m_siteId existingMaterial | Some v \<Rightarrow> v),
         m_name := (case p_name material of None \<Rightarrow> m_name existingMaterial | Some v \<Rightarrow> v),
         m_category := (case p_category material of None \<Rightarrow> m_category existingMaterial | Some v \<Rightarrow> v),
         m_unit := (case p_unit material of None \<Rightarrow> m_unit existingMaterial | Some v \<Rightarrow> v),
         m_quantity := (case p_quantity material of None \<Rightarrow> m_quantity existingMaterial | Some v \<Rightarrow> v),
         m_minStockLevel :=
           (case p_minStockLevel material of None \<Rightarrow> m_minStockLevel existingMaterial | Some v \<Rightarrow> v) \<rparr>"

text \<open>The object literal \<^verbatim>\<open>{ quantity: newQuantity }\<close>.\<close>

definition quantityOnly :: "real \<Rightarrow> PartialInsertMaterial" where
  "quantityOnly newQuantity =
     \<lparr> p_siteId = None, p_name = None, p_category = None, p_unit = None,
       p_quantity = Some newQuantity, p_minStockLevel = None \<rparr>"

subsection \<open>\<^verbatim>\<open>MemStorage\<close>\<close>

text \<open>
  The fields of the class. The map \<^verbatim>\<open>notes\<close> is named \<open>notesMap\<close> here, \<open>notes\<close> being a
  keyword of the prover.
\<close>

record MemStorage =
  sites :: "(int \<times> entity) list"
  materials :: "(int \<times> Material) list"
  materialTransactions :: "(int \<times> MaterialTransaction) list"
  workers :: "(int \<times> entity) list"
  attendance :: "(int \<times> entity) list"
  expenses :: "(int \<times> entity) list"
  photos :: "(int \<times> entity) list"
  notesMap :: "(int \<times> entity) list"
  users :: "(int \<times> entity) list"
  siteId :: int
  materialId :: int
  materialTransactionId :: int
  workerId :: int
  attendanceId :: int
  expenseId :: int
  photoId :: int
  noteId :: int
  userId :: int

subsubsection \<open>Material operations\<close>

definition getMaterials :: "int \<Rightarrow> MemStorage \<Rightarrow> Material list" where
  "getMaterials site s = filter (\<lambda>m. m_siteId m = site) (Map_values (materials s))"

definition getMaterial :: "int \<Rightarrow> MemStorage \<Rightarrow> Material option" where
  "getMaterial i s = Map_get (materials s) i"

definition createMaterial :: "timestamp \<Rightarrow> InsertMaterial \<Rightarrow> MemStorage \<Rightarrow> Material \<times> MemStorage" where
  "createMaterial now material s =
     (let i = materialId s;
          lastUpdated = now;
          newMaterial =
            \<lparr> m_id = i, m_siteId = im_siteId material, m_name = im_name material,
              m_category = im_category material, m_unit = im_unit material,
              m_quantity = im_quantity material, m_minStockLevel = im_minStockLevel material,
              m_lastUpdated = lastUpdated \<rparr>
      in (newMaterial, s\<lparr> materialId := i + 1, materials := Map_set i newMaterial (materials s) \<rparr>))"

definition updateMaterial ::
  "timestamp \<Rightarrow> int \<Rightarrow> PartialInsertMaterial \<Rightarrow> MemStorage \<Rightarrow> Material option \<times> MemStorage" where
  "updateMaterial now i material s =
     (case Map_get (materials s) i of
        None \<Rightarrow> (None, s)
      | Some existingMaterial \<Rightarrow>
          (let updatedMaterial = (spreadMaterial existingMaterial material)\<lparr> m_lastUpdated := now \<rparr>
           in (Some updatedMaterial, s\<lparr> materials := Map_set i updatedMaterial (materials s) \<rparr>)))"

definition deleteMaterial :: "int \<Rightarrow> MemStorage \<Rightarrow> bool \<times> MemStorage" where
  "deleteMaterial i s =
     (let (existed, rest) = Map_delete i (materials s) in (existed, s\<lparr> materials := rest \<rparr>))"

definition getLowStockMaterials :: "int \<Rightarrow> MemStorage \<Rightarrow> Material list" where
  "getLowStockMaterials site s =
     filter (\<lambda>m. m_siteId m = site \<and> m_quantity m < m_minStockLevel m) (Map_values (materials s))"

subsubsection \<open>Material transaction operations\<close>

text \<open>
  \<^verbatim>\<open>newQuantity\<close> of \<^verbatim>\<open>createMaterialTransaction\<close>: the same statements in \<^verbatim>\<open>MemStorage\<close> and
  in \<^verbatim>\<open>DatabaseStorage\<close>. Only the \<^verbatim>\<open>"used"\<close> branch clamps.
\<close>

definition newQuantity :: "Material \<Rightarrow> InsertMaterialTransaction \<Rightarrow> real" where
  "newQuantity material transaction =
     (if it_transactionType transaction = ''added'' then
        m_quantity material + it_quantity transaction
      else if it_transactionType transaction = ''used'' then
        (let q = m_quantity material - it_quantity transaction in if q < 0 then 0 else q)
      else m_quantity material)"

text \<open>\<^verbatim>\<open>{ ...transaction, id }\<close>.\<close>

definition withId :: "InsertMaterialTransaction \<Rightarrow> int \<Rightarrow> MaterialTransaction" where
  "withId transaction i =
     \<lparr> t_id = i, t_materialId = it_materialId transaction, t_siteId = it_siteId transaction,
       t_date = it_date transaction, t_transactionType = it_transactionType transaction,
       t_quantity = it_quantity transaction, t_notes = it_notes transaction,
       t_recordedBy = it_recordedBy transaction \<rparr>"

definition createMaterialTransaction ::
  "timestamp \<Rightarrow> InsertMaterialTransaction \<Rightarrow> MemStorage \<Rightarrow> MaterialTransaction \<times> MemStorage" where
  "createMaterialTransaction now transaction s =
     (let i = materialTransactionId s;
          newTransaction = withId transaction i;
          s1 = s\<lparr> materialTransactionId := i + 1,
                 materialTransactions := Map_set i newTransaction (materialTransactions s) \<rparr>
      in case getMaterial (it_materialId transaction) s1 of
           None \<Rightarrow> (newTransaction, s1)
         | Some material \<Rightarrow>
             (newTransaction,
              snd (updateMaterial now (m_id material)
                     (quantityOnly (newQuantity material transaction)) s1)))"

subsubsection \<open>The other entities\<close>

text \<open>
  \<^verbatim>\<open>{ ...site, id }\<close> and \<^verbatim>\<open>{ ...existingSite, ...site }\<close>; the remaining entities follow the
  same three shapes, \<^verbatim>\<open>createPhoto\<close>, \<^verbatim>\<open>createNote\<close> and \<^verbatim>\<open>updateNote\<close> adding
  \<^verbatim>\<open>date: new Date()\<close>.
\<close>

definition createSite :: "jsobject \<Rightarrow> MemStorage \<Rightarrow> entity \<times> MemStorage" where
  "createSite site s =
     (let i = siteId s; newSite = \<lparr> e_id = i, e_props = site \<rparr>
      in (newSite, s\<lparr> siteId := i + 1, sites := Map_set i newSite (sites s) \<rparr>))"

definition updateSite :: "int \<Rightarrow> jsobject \<Rightarrow> MemStorage \<Rightarrow> entity option \<times> MemStorage" where
  "updateSite i site s =
     (case Map_get (sites s) i of
        None \<Rightarrow> (None, s)
      | Some existingSite \<Rightarrow>
          (let updatedSite = existingSite\<lparr> e_props := spread (e_props existingSite) site \<rparr>
           in (Some updatedSite, s\<lparr> sites := Map_set i updatedSite (sites s) \<rparr>)))"

definition deleteSite :: "int \<Rightarrow> MemStorage \<Rightarrow> bool \<times> MemStorage" where
  "deleteSite i s =
     (let (existed, rest) = Map_delete i (sites s) in (existed, s\<lparr> sites := rest \<rparr>))"

definition createWorker :: "jsobject \<Rightarrow> MemStorage \<Rightarrow> entity \<times> MemStorage" where
  "createWorker worker s =
     (let i = workerId s; newWorker = \<lparr> e_id = i, e_props = worker \<rparr>
      in (newWorker, s\<lparr> workerId := i + 1, workers := Map_set i newWorker (workers s) \<rparr>))"

definition updateWorker :: "int \<Rightarrow> jsobject \<Rightarrow> MemStorage \<Rightarrow> entity option \<times> MemStorage" where
  "updateWorker i worker s =
     (case Map_get (workers s) i of
        None \<Rightarrow> (None, s)
      | Some existingWorker \<Rightarrow>
          (let updatedWorker = existingWorker\<lparr> e_props := spread (e_props existingWorker) worker \<rparr>
           in (Some updatedWorker, s\<lparr> workers := Map_set i updatedWorker (workers s) \<rparr>)))"

definition deleteWorker :: "int \<Rightarrow> MemStorage \<Rightarrow> bool \<times> MemStorage" where
  "deleteWorker i s =
     (let (existed, rest) = Map_delete i (workers s) in (existed, s\<lparr> workers := rest \<rparr>))"

definition createAttendance :: "jsobject \<Rightarrow> MemStorage \<Rightarrow> entity \<times> MemStorage" where
  "createAttendance att s =
     (let i = attendanceId s; newAttendance = \<lparr> e_id = i, e_props = att \<rparr>
      in (newAttendance,
          s\<lparr> attendanceId := i + 1, attendance := Map_set i newAttendance (attendance s) \<rparr>))"

definition updateAttendance :: "int \<Rightarrow> jsobject \<Rightarrow> MemStorage \<Rightarrow> entity option \<times> MemStorage" where
  "updateAttendance i att s =
     (case Map_get (attendance s) i of
        None \<Rightarrow> (None, s)
      | Some existingAttendance \<Rightarrow>
          (let updatedAttendance =
                 existingAttendance\<lparr> e_props := spread (e_props existingAttendance) att \<rparr>
           in (Some updatedAttendance,
               s\<lparr> attendance := Map_set i updatedAttendance (attendance s) \<rparr>)))"

definition createExpense :: "jsobject \<Rightarrow> MemStorage \<Rightarrow> entity \<times> MemStorage" where
  "createExpense expense s =
     (let i = expenseId s; newExpense = \<lparr> e_id = i, e_props = expense \<rparr>
      in (newExpense, s\<lparr> expenseId := i + 1, expenses := Map_set i newExpense (expenses s) \<rparr>))"

definition updateExpense :: "int \<Rightarrow> jsobject \<Rightarrow> MemStorage \<Rightarrow> entity option \<times> MemStorage" where
  "updateExpense i expense s =
     (case Map_get (expenses s) i of
        None \<Rightarrow> (None, s)
      | Some existingExpense \<Rightarrow>
          (let updatedExpense = existingExpense\<lparr> e_props := spread (e_props existingExpense) expense \<rparr>
           in (Some updatedExpense, s\<lparr> expenses := Map_set i updatedExpense (expenses s) \<rparr>)))"

definition deleteExpense :: "int \<Rightarrow> MemStorage \<Rightarrow> bool \<times> MemStorage" where
  "deleteExpense i s =
     (let (existed, rest) = Map_delete i (expenses s) in (existed, s\<lparr> expenses := rest \<rparr>))"

definition createPhoto :: "timestamp \<Rightarrow> jsobject \<Rightarrow> MemStorage \<Rightarrow> entity \<times> MemStorage" where
  "createPhoto now photo s =
     (let i = photoId s;
          newPhoto = \<lparr> e_id = i, e_props = spread photo [(''date'', JDate now)] \<rparr>
      in (newPhoto, s\<lparr> photoId := i + 1, photos := Map_set i newPhoto (photos s) \<rparr>))"

definition deletePhoto :: "int \<Rightarrow> MemStorage \<Rightarrow> bool \<times> MemStorage" where
  "deletePhoto i s =
     (let (existed, rest) = Map_delete i (photos s) in (existed, s\<lparr> photos := rest \<rparr>))"

definition createNote :: "timestamp \<Rightarrow> jsobject \<Rightarrow> MemStorage \<Rightarrow> entity \<times> MemStorage" where
  "createNote now note s =
     (let i = noteId s;
          newNote = \<lparr> e_id = i, e_props = spread note [(''date'', JDate now)] \<rparr>
      in (newNote, s\<lparr> noteId := i + 1, notesMap := Map_set i newNote (notesMap s) \<rparr>))"

definition updateNote :: "timestamp \<Rightarrow> int \<Rightarrow> jsobject \<Rightarrow> MemStorage \<Rightarrow> entity option \<times> MemStorage" where
  "updateNote now i note s =
     (case Map_get (notesMap s) i of
        None \<Rightarrow> (None, s)
      | Some existingNote \<Rightarrow>
          (let updatedNote =
                 existingNote\<lparr> e_props :=
                   spread (spread (e_props existingNote) note) [(''date'', JDate now)] \<rparr>
           in (Some updatedNote, s\<lparr> notesMap := Map_set i updatedNote (notesMap s) \<rparr>)))"

definition deleteNote :: "int \<Rightarrow> MemStorage \<Rightarrow> bool \<times> MemStorage" where
  "deleteNote i s =
     (let (existed, rest) = Map_delete i (notesMap s) in (existed, s\<lparr> notesMap := rest \<rparr>))"

definition createUser :: "jsobject \<Rightarrow> MemStorage \<Rightarrow> entity \<times> MemStorage" where
  "createUser user s =
     (let i = userId s; newUser = \<lparr> e_id = i, e_props = user \<rparr>
      in (newUser, s\<lparr> userId := i + 1, users := Map_set i newUser (users s) \<rparr>))"

subsubsection \<open>The storage interface as a whole\<close>

text \<open>
  \<^verbatim>\<open>IStorage\<close> has two kinds of methods: the readers (\<^verbatim>\<open>get...\<close>), which return a value
  computed from the maps and assign nothing, and the twenty-one methods below, one
  constructor each. \<open>exec\<close> is the state after a call.
\<close>

datatype operation =
    CreateSite jsobject | UpdateSite int jsobject | DeleteSite int
  | CreateMaterial InsertMaterial | UpdateMaterial int PartialInsertMaterial | DeleteMaterial int
  | CreateMaterialTransaction InsertMaterialTransaction
  | CreateWorker jsobject | UpdateWorker int jsobject | DeleteWorker int
  | CreateAttendance jsobject | UpdateAttendance int jsobject
  | CreateExpense jsobject | UpdateExpense int jsobject | DeleteExpense int
  | CreatePhoto jsobject | DeletePhoto int
  | CreateNote jsobject | UpdateNote int jsobject | DeleteNote int
  | CreateUser jsobject

fun exec :: "timestamp \<Rightarrow> operation \<Rightarrow> MemStorage \<Rightarrow> MemStorage" where
  "exec now (CreateSite site) s = snd (createSite site s)"
| "exec now (UpdateSite i site) s = snd (updateSite i site s)"
| "exec now (DeleteSite i) s = snd (deleteSite i s)"
| "exec now (CreateMaterial material) s = snd (createMaterial now material s)"
| "exec now (UpdateMaterial i material) s = snd (updateMaterial now i material s)"
| "exec now (DeleteMaterial i) s = snd (deleteMaterial i s)"
| "exec now (CreateMaterialTransaction transaction) s =
     snd (createMaterialTransaction now transaction s)"
| "exec now (CreateWorker worker) s = snd (createWorker worker s)"
| "exec now (UpdateWorker i worker) s = snd (updateWorker i worker s)"
| "exec now (DeleteWorker i) s = snd (deleteWorker i s)"
| "exec now (CreateAttendance att) s = snd (createAttendance att s)"
| "exec now (UpdateAttendance i att) s = snd (updateAttendance i att s)"
| "exec now (CreateExpense expense) s = snd (createExpense expense s)"
| "exec now (UpdateExpense i expense) s = snd (updateExpense i expense s)"
| "exec now (DeleteExpense i) s = snd (deleteExpense i s)"
| "exec now (CreatePhoto photo) s = snd (createPhoto now photo s)"
| "exec now (DeletePhoto i) s = snd (deletePhoto i s)"
| "exec now (CreateNote note) s = snd (createNote now note s)"
| "exec now (UpdateNote i note) s = snd (updateNote now i note s)"
| "exec now (DeleteNote i) s = snd (deleteNote i s)"
| "exec now (CreateUser user) s = snd (createUser user s)"

text \<open>A run of calls, each with the clock value it reads.\<close>

fun execAll :: "(timestamp \<times> operation) list \<Rightarrow> MemStorage \<Rightarrow> MemStorage" where
  "execAll [] s = s"
| "execAll (c # cs) s = execAll cs (exec (fst c) (snd c) s)"

text \<open>A run of \<^verbatim>\<open>createMaterialTransaction\<close> calls.\<close>

fun createMaterialTransactions ::
  "(timestamp \<times> InsertMaterialTransaction) list \<Rightarrow> MemStorage \<Rightarrow> MemStorage" where
  "createMaterialTransactions [] s = s"
| "createMaterialTransactions (c # cs) s =
     createMaterialTransactions cs (snd (createMaterialTransaction (fst c) (snd c) s))"

subsubsection \<open>The constructor\<close>

text \<open>The field initialisers: empty maps, every counter at 1.\<close>

definition emptyMemStorage :: MemStorage where
  "emptyMemStorage =
     \<lparr> sites = [], materials = [], materialTransactions = [], workers = [], attendance = [],
       expenses = [], photos = [], notesMap = [], users = [],
       siteId = 1, materialId = 1, materialTransactionId = 1, workerId = 1, attendanceId = 1,
       expenseId = 1, photoId = 1, noteId = 1, userId = 1 \<rparr>"

text \<open>
  \<^verbatim>\<open>createInitialData\<close>. \<^verbatim>\<open>createSite\<close> assigns the site at once, \<^verbatim>\<open>createUser\<close> follows, and
  the callback of \<^verbatim>\<open>then\<close> adds the sample materials, workers and expenses. The clock is
  read five times: by the three \<^verbatim>\<open>createMaterial\<close> calls and by the two \<^verbatim>\<open>date: new Date()\<close>
  of the expenses; \<open>clock k\<close> is the \<open>k\<close>-th value read.
\<close>

definition dhakaSite :: jsobject where
  "dhakaSite =
     [(''name'', JString ''Dhaka Residence''), (''location'', JString ''Gulshan, Dhaka''),
      (''description'', JString ''A residential building project in Gulshan''),
      (''startDate'', JDate 1693526400000), (''expectedEndDate'', JDate 1719705600000),
      (''status'', JString ''ongoing'')]"

definition sampleMaterials :: "int \<Rightarrow> InsertMaterial list" where
  "sampleMaterials site =
     [\<lparr> im_siteId = site, im_name = ''Cement (OPC)'', im_category = ''Cement'', im_unit = ''Bags'',
        im_quantity = 15, im_minStockLevel = 50 \<rparr>,
      \<lparr> im_siteId = site, im_name = ''Sand (Coarse)'', im_category = ''Sand'', im_unit = ''CFT'',
        im_quantity = 120, im_minStockLevel = 200 \<rparr>,
      \<lparr> im_siteId = site, im_name = ''Steel Rods (10mm)'', im_category = ''Steel'', im_unit = ''Kg'',
        im_quantity = 850, im_minStockLevel = 500 \<rparr>]"

definition sampleWorkers :: "int \<Rightarrow> jsobject list" where
  "sampleWorkers site =
     [[(''siteId'', JNumber (of_int site)), (''name'', JString ''Abdul Karim''),
       (''role'', JString ''Mason''), (''dailyWage'', JNumber 800),
       (''phone'', JString ''01711223344''), (''joinDate'', JDate 1693526400000)],
      [(''siteId'', JNumber (of_int site)), (''name'', JString ''Mohammad Ali''),
       (''role'', JString ''Helper''), (''dailyWage'', JNumber 500),
       (''phone'', JString ''01811223344''), (''joinDate'', JDate 1693526400000)]]"

definition sampleExpenses :: "(nat \<Rightarrow> timestamp) \<Rightarrow> int \<Rightarrow> jsobject list" where
  "sampleExpenses clock site =
     [[(''siteId'', JNumber (of_int site)), (''category'', JString ''Materials''),
       (''amount'', JNumber 25750), (''date'', JDate (clock 3)),
       (''description'', JString ''Cement purchase''), (''hasReceipt'', JBoolean False),
       (''receiptUrl'', JString [])],
      [(''siteId'', JNumber (of_int site)), (''category'', JString ''Labor''),
       (''amount'', JNumber 12000), (''date'', JDate (clock 4)),
       (''description'', JString ''Weekly labor payment''), (''hasReceipt'', JBoolean False),
       (''receiptUrl'', JString [])]]"

definition adminUser :: jsobject where
  "adminUser =
     [(''username'', JString ''admin''), (''password'', JString ''admin123''),
      (''role'', JString ''admin'')]"

definition createInitialData :: "(nat \<Rightarrow> timestamp) \<Rightarrow> MemStorage \<Rightarrow> MemStorage" where
  "createInitialData clock s =
     (let (site, s1) = createSite dhakaSite s;
          s2 = snd (createUser adminUser s1);
          s3 = foldl (\<lambda>acc (k, material). snd (createMaterial (clock k) material acc)) s2
                 (zip [0 ..< 3] (sampleMaterials (e_id site)));
          s4 = foldl (\<lambda>acc worker. snd (createWorker worker acc)) s3 (sampleWorkers (e_id site));
          s5 = foldl (\<lambda>acc expense. snd (createExpense expense acc)) s4
                 (sampleExpenses clock (e_id site))
      in s5)"

definition newMemStorage :: "(nat \<Rightarrow> timestamp) \<Rightarrow> MemStorage" where
  "newMemStorage clock = createInitialData clock emptyMemStorage"

subsection \<open>\<^verbatim>\<open>DatabaseStorage\<close>\<close>

text \<open>
  The exported \<^verbatim>\<open>storage\<close> is the \<^verbatim>\<open>DatabaseStorage\<close>, whose methods are queries on the tables
  of \<^verbatim>\<open>shared/schema.ts\<close>. A table is the list of its rows; \<^verbatim>\<open>select ... where\<close> filters it,
  \<^verbatim>\<open>update ... set ... where\<close> rewrites the rows that match, \<^verbatim>\<open>delete ... where\<close> drops them
  and \<^verbatim>\<open>insert ... returning\<close> appends a row whose \<^verbatim>\<open>serial\<close> id is the next value of the
  table's sequence. The schema declares no foreign key. Only the two tables of the stock
  ledger are represented. Calls are taken one at a time: the statements of two requests
  that the server handles at once may interleave between the queries of a method, and such
  runs are not represented.
\<close>

record Database =
  tbl_materials :: "Material list"
  tbl_materialTransactions :: "MaterialTransaction list"
  seq_materials :: int
  seq_materialTransactions :: int

definition db_getMaterial :: "int \<Rightarrow> Database \<Rightarrow> Material option" where
  "db_getMaterial i d =
     (let result = filter (\<lambda>m. m_id m = i) (tbl_materials d)
      in if length result > 0 then Some (hd result) else None)"

definition db_createMaterial :: "timestamp \<Rightarrow> InsertMaterial \<Rightarrow> Database \<Rightarrow> Material \<times> Database" where
  "db_createMaterial now material d =
     (let newMaterial =
            \<lparr> m_id = seq_materials d, m_siteId = im_siteId material, m_name = im_name material,
              m_category = im_category material, m_unit = im_unit material,
              m_quantity = im_quantity material, m_minStockLevel = im_minStockLevel material,
              m_lastUpdated = now \<rparr>
      in (newMaterial,
          d\<lparr> seq_materials := seq_materials d + 1,
             tbl_materials := tbl_materials d @ [newMaterial] \<rparr>))"

definition db_updateMaterial ::
  "timestamp \<Rightarrow> int \<Rightarrow> PartialInsertMaterial \<Rightarrow> Database \<Rightarrow> Material option \<times> Database" where
  "db_updateMaterial now i material d =
     (let rows = map (\<lambda>m. if m_id m = i
                           then (spreadMaterial m material)\<lparr> m_lastUpdated := now \<rparr> else m)
                   (tbl_materials d);
          returning = filter (\<lambda>m. m_id m = i) rows
      in (case returning of [] \<Rightarrow> None | updatedMaterial # _ \<Rightarrow> Some updatedMaterial,
          d\<lparr> tbl_materials := rows \<rparr>))"

definition db_deleteMaterial :: "int \<Rightarrow> Database \<Rightarrow> bool \<times> Database" where
  "db_deleteMaterial i d =
     (let rowCount = length (filter (\<lambda>m. m_id m = i) (tbl_materials d))
      in (rowCount > 0, d\<lparr> tbl_materials := filter (\<lambda>m. m_id m \<noteq> i) (tbl_materials d) \<rparr>))"

definition db_getLowStockMaterials :: "int \<Rightarrow> Database \<Rightarrow> Material list" where
  "db_getLowStockMaterials site d =
     filter (\<lambda>m. m_siteId m = site \<and> m_quantity m < m_minStockLevel m) (tbl_materials d)"

text \<open>
  The insert reads the database clock (\<open>dbNow\<close>) for an absent \<^verbatim>\<open>date\<close>; \<^verbatim>\<open>updateMaterial\<close>
  reads the server's (\<open>now\<close>).
\<close>

definition db_createMaterialTransaction ::
  "timestamp \<Rightarrow> timestamp \<Rightarrow> InsertMaterialTransaction \<Rightarrow> Database
     \<Rightarrow> MaterialTransaction \<times> Database" where
  "db_createMaterialTransaction dbNow now transaction d =
     (let newTransaction =
            (withId transaction (seq_materialTransactions d))
              \<lparr> t_date := Some (case it_date transaction of None \<Rightarrow> dbNow | Some v \<Rightarrow> v) \<rparr>;
          d1 = d\<lparr> seq_materialTransactions := seq_materialTransactions d + 1,
                 tbl_materialTransactions := tbl_materialTransactions d @ [newTransaction] \<rparr>
      in case db_getMaterial (it_materialId transaction) d1 of
           None \<Rightarrow> (newTransaction, d1)
         | Some material \<Rightarrow>
             (newTransaction,
              snd (db_updateMaterial now (m_id material)
                     (quantityOnly (newQuantity material transaction)) d1)))"

fun db_createMaterialTransactions ::
  "(timestamp \<times> timestamp \<times> InsertMaterialTransaction) list \<Rightarrow> Database \<Rightarrow> Database" where
  "db_createMaterialTransactions [] d = d"
| "db_createMaterialTransactions (c # cs) d =
     db_createMaterialTransactions cs
       (snd (db_createMaterialTransaction (fst c) (fst (snd c)) (snd (snd c)) d))"

text \<open>
  The materials that \<^verbatim>\<open>seedData\<close> inserts into an empty database, for the sample site, which
  gets id 1 there.
\<close>

definition emptyDatabase :: Database where
  "emptyDatabase =
     \<lparr> tbl_materials = [], tbl_materialTransactions = [],
       seq_materials = 1, seq_materialTransactions = 1 \<rparr>"

definition seededDatabase :: "(nat \<Rightarrow> timestamp) \<Rightarrow> Database" where
  "seededDatabase clock =
     foldl (\<lambda>acc (k, material). snd (db_createMaterial (clock k) material acc)) emptyDatabase
       (zip [0 ..< 3] (sampleMaterials 1))"

subsection \<open>Stock classification of the material list\<close>










subsection \<open>Preconditions and invariants\<close>

text \<open>
  The input constraints that the specification states for recording a transaction: the type
  is \<^verbatim>\<open>"added"\<close> or \<^verbatim>\<open>"used"\<close> and the quantity is positive. The material dialog of the client
  enforces them; the server does not.
\<close>

definition meetsInputConstraints :: "InsertMaterialTransaction \<Rightarrow> bool" where
  "meetsInputConstraints transaction =
     ((it_transactionType transaction = ''added'' \<or> it_transactionType transaction = ''used'')
      \<and> it_quantity transaction > 0)"

text \<open>
  Two facts about a \<^verbatim>\<open>MemStorage\<close> that hold after the constructor and are kept by every
  method: a material is stored under its own \<^verbatim>\<open>id\<close>, and the keys of the transactions are
  below the counter that issues them.
\<close>

definition materialsKeyed :: "MemStorage \<Rightarrow> bool" where
  "materialsKeyed s = list_all (\<lambda>e. m_id (snd e) = fst e) (materials s)"

definition transactionIdsBelow :: "MemStorage \<Rightarrow> bool" where
  "transactionIdsBelow s = list_all (\<lambda>e. fst e < materialTransactionId s) (materialTransactions s)"

subsection \<open>Sample values\<close>

text \<open>
  A clock, the three seeded materials as they are stored, and a transaction on the sample
  site, for the concrete instances below.
\<close>

definition sampleClock :: "nat \<Rightarrow> timestamp" where
  "sampleClock k = 1700000000000 + int k"

definition cement :: "timestamp \<Rightarrow> Material" where
  "cement updated =
     \<lparr> m_id = 1, m_siteId = 1, m_name = ''Cement (OPC)'', m_category = ''Cement'', m_unit = ''Bags'',
       m_quantity = 15, m_minStockLevel = 50, m_lastUpdated = updated \<rparr>"

definition sand :: "timestamp \<Rightarrow> Material" where
  "sand updated =
     \<lparr> m_id = 2, m_siteId = 1, m_name = ''Sand (Coarse)'', m_category = ''Sand'', m_unit = ''CFT'',
       m_quantity = 120, m_minStockLevel = 200, m_lastUpdated = updated \<rparr>"

definition steel :: "timestamp \<Rightarrow> Material" where
  "steel updated =
     \<lparr> m_id = 3, m_siteId = 1, m_name = ''Steel Rods (10mm)'', m_category = ''Steel'', m_unit = ''Kg'',
       m_quantity = 850, m_minStockLevel = 500, m_lastUpdated = updated \<rparr>"

definition stockMove :: "int \<Rightarrow> string \<Rightarrow> real \<Rightarrow> InsertMaterialTransaction" where
  "stockMove material kind q =
     \<lparr> it_materialId = material, it_siteId = 1, it_date = None, it_transactionType = kind,
       it_quantity = q, it_notes = None, it_recordedBy = ''admin'' \<rparr>"




section \<open>Properties\<close>

subsection \<open>The map\<close>

lemma Map_get_set: "Map_get (Map_set k v m) k' = (if k' = k then Some v else Map_get m k')"
  by (induction m) auto

lemma Map_set_absent: "Map_get m k = None \<Longrightarrow> Map_set k v m = m @ [(k, v)]"
  by (induction m) (auto split: if_splits)

lemma set_Map_set: "set (Map_set k v m) \<subseteq> insert (k, v) (set m)"
  by (induction m) auto

lemma Map_get_delete:
  "Map_get (snd (Map_delete i m)) k = (if k = i then None else Map_get m k)"
  by (induction m) (auto simp: Map_delete_def)

lemma Map_get_fresh:
  assumes "list_all (\<lambda>e. fst e < n) m"
  shows "Map_get m (n::int) = None"
proof (cases "Map_get m n")
  case None
  then show ?thesis .
next
  case (Some v)
  then have "(n, v) \<in> set m" by (rule map_of_SomeD)
  with assms show ?thesis by (force simp: list_all_iff)
qed

lemma list_all_Map_set:
  "list_all P m \<Longrightarrow> P (k, v) \<Longrightarrow> list_all P (Map_set k v m)"
  by (induction m) auto

subsection \<open>One transaction, in memory\<close>

lemma keyed_lookup: "materialsKeyed s \<Longrightarrow> Map_get (materials s) k = Some m \<Longrightarrow> m_id m = k"
proof -
  assume k: "materialsKeyed s" and g: "Map_get (materials s) k = Some m"
  from g have "(k, m) \<in> set (materials s)" by (rule map_of_SomeD)
  with k show ?thesis by (force simp: materialsKeyed_def list_all_iff)
qed

lemma newQuantity_nonneg:
  "meetsInputConstraints t \<Longrightarrow> 0 \<le> m_quantity m \<Longrightarrow> 0 \<le> newQuantity m t"
  by (auto simp: meetsInputConstraints_def newQuantity_def Let_def)

lemma newQuantity_used:
  "it_transactionType t = ''used'' \<Longrightarrow> newQuantity m t = max (m_quantity m - it_quantity t) 0"
  by (simp add: newQuantity_def Let_def max_def)

lemma newQuantity_added:
  "it_transactionType t = ''added'' \<Longrightarrow> newQuantity m t = m_quantity m + it_quantity t"
  by (simp add: newQuantity_def)

lemma newQuantity_other:
  "it_transactionType t \<noteq> ''added'' \<Longrightarrow> it_transactionType t \<noteq> ''used'' \<Longrightarrow>
   newQuantity m t = m_quantity m"
  by (simp add: newQuantity_def)

lemma fields_createMaterialTransaction:
  "fst (createMaterialTransaction now t s) = withId t (materialTransactionId s)"
  "materialTransactions (snd (createMaterialTransaction now t s)) =
     Map_set (materialTransactionId s) (withId t (materialTransactionId s)) (materialTransactions s)"
  "materialTransactionId (snd (createMaterialTransaction now t s)) = materialTransactionId s + 1"
  by (auto simp: createMaterialTransaction_def getMaterial_def updateMaterial_def Let_def
        split: option.splits)

lemma stored_createMaterialTransaction:
  "Map_get (materialTransactions (snd (createMaterialTransaction now t s))) (materialTransactionId s)
     = Some (fst (createMaterialTransaction now t s))"
  by (simp add: fields_createMaterialTransaction Map_get_set)

lemma materials_createMaterialTransaction:
  assumes "materialsKeyed s"
  shows "materials (snd (createMaterialTransaction now t s)) =
     (case Map_get (materials s) (it_materialId t) of
        None \<Rightarrow> materials s
      | Some m \<Rightarrow> Map_set (it_materialId t)
                    (m\<lparr> m_quantity := newQuantity m t, m_lastUpdated := now \<rparr>) (materials s))"
  using assms
  by (auto simp: createMaterialTransaction_def getMaterial_def updateMaterial_def Let_def
        spreadMaterial_def quantityOnly_def dest: keyed_lookup split: option.splits)

lemma getMaterial_createMaterialTransaction:
  assumes "materialsKeyed s" "getMaterial (it_materialId t) s = Some m"
  shows "getMaterial (it_materialId t) (snd (createMaterialTransaction now t s)) =
           Some (m\<lparr> m_quantity := newQuantity m t, m_lastUpdated := now \<rparr>)"
  using assms
  by (simp add: getMaterial_def materials_createMaterialTransaction Map_get_set)

lemma keyed_createMaterialTransaction:
  assumes "materialsKeyed s"
  shows "materialsKeyed (snd (createMaterialTransaction now t s))"
proof (cases "Map_get (materials s) (it_materialId t)")
  case None
  with assms show ?thesis
    by (simp add: materials_createMaterialTransaction materialsKeyed_def)
next
  case (Some m)
  have "m_id m = it_materialId t" using assms Some by (rule keyed_lookup)
  with assms Some show ?thesis
    using set_Map_set [of "it_materialId t" "m\<lparr> m_quantity := newQuantity m t, m_lastUpdated := now \<rparr>" "materials s"]
    by (auto simp: materials_createMaterialTransaction materialsKeyed_def list_all_iff)
qed

lemma materials_missing:
  assumes "getMaterial (it_materialId t) s = None"
  shows "snd (createMaterialTransaction now t s) =
           s\<lparr> materialTransactionId := materialTransactionId s + 1,
              materialTransactions :=
                Map_set (materialTransactionId s) (withId t (materialTransactionId s))
                  (materialTransactions s) \<rparr>"
  using assms by (simp add: createMaterialTransaction_def getMaterial_def Let_def)

subsection \<open>One transaction, in the database\<close>

lemma db_getMaterial_SomeD:
  assumes "db_getMaterial i d = Some m"
  shows "m \<in> set (tbl_materials d)" and "m_id m = i"
proof -
  let ?r = "filter (\<lambda>m. m_id m = i) (tbl_materials d)"
  from assms have ne: "?r \<noteq> []" and m: "m = hd ?r"
    by (auto simp: db_getMaterial_def Let_def split: if_splits)
  from ne have "hd ?r \<in> set ?r" by (rule hd_in_set)
  with m show "m \<in> set (tbl_materials d)" and "m_id m = i" by auto
qed

lemma db_getMaterial_map:
  assumes "\<And>r. m_id (f r) = m_id r"
  shows "db_getMaterial i (d\<lparr> tbl_materials := map f (tbl_materials d) \<rparr>) =
         map_option f (db_getMaterial i d)"
proof -
  have "filter (\<lambda>m. m_id m = i) (map f (tbl_materials d)) =
        map f (filter (\<lambda>m. m_id m = i) (tbl_materials d))"
    by (simp add: filter_map o_def assms)
  then show ?thesis
    by (auto simp: db_getMaterial_def Let_def hd_map)
qed

lemma db_fields_createMaterialTransaction:
  "fst (db_createMaterialTransaction dbNow now t d) =
     (withId t (seq_materialTransactions d))
       \<lparr> t_date := Some (case it_date t of None \<Rightarrow> dbNow | Some v \<Rightarrow> v) \<rparr>"
  "tbl_materialTransactions (snd (db_createMaterialTransaction dbNow now t d)) =
     tbl_materialTransactions d @ [fst (db_createMaterialTransaction dbNow now t d)]"
  by (auto simp: db_createMaterialTransaction_def db_getMaterial_def db_updateMaterial_def Let_def
        split: option.splits)

lemma db_getMaterial_other_fields [simp]:
  "db_getMaterial i (d\<lparr> seq_materialTransactions := n, tbl_materialTransactions := ts \<rparr>) =
   db_getMaterial i d"
  by (simp add: db_getMaterial_def)

lemma db_materials_createMaterialTransaction:
  "tbl_materials (snd (db_createMaterialTransaction dbNow now t d)) =
     (case db_getMaterial (it_materialId t) d of
        None \<Rightarrow> tbl_materials d
      | Some m \<Rightarrow>
          map (\<lambda>r. if m_id r = it_materialId t
                    then r\<lparr> m_quantity := newQuantity m t, m_lastUpdated := now \<rparr> else r)
            (tbl_materials d))"
proof (cases "db_getMaterial (it_materialId t) d")
  case None
  then show ?thesis
    by (simp add: db_createMaterialTransaction_def Let_def)
next
  case (Some m)
  then have "m_id m = it_materialId t" by (rule db_getMaterial_SomeD)
  with Some show ?thesis
    by (simp add: db_createMaterialTransaction_def db_updateMaterial_def
          Let_def spreadMaterial_def quantityOnly_def)
qed

lemma db_getMaterial_createMaterialTransaction:
  "db_getMaterial k (snd (db_createMaterialTransaction dbNow now t d)) =
     (case db_getMaterial (it_materialId t) d of
        None \<Rightarrow> db_getMaterial k d
      | Some m \<Rightarrow>
          map_option (\<lambda>r. if m_id r = it_materialId t
                    then r\<lparr> m_quantity := newQuantity m t, m_lastUpdated := now \<rparr> else r)
            (db_getMaterial k d))"
proof -
  let ?d' = "snd (db_createMaterialTransaction dbNow now t d)"
  have *: "db_getMaterial k ?d' = db_getMaterial k (d\<lparr> tbl_materials := tbl_materials ?d' \<rparr>)"
    by (simp add: db_getMaterial_def)
  show ?thesis
  proof (cases "db_getMaterial (it_materialId t) d")
    case None
    then show ?thesis unfolding * by (simp add: db_materials_createMaterialTransaction)
  next
    case (Some m)
    then show ?thesis unfolding *
      by (simp add: db_materials_createMaterialTransaction db_getMaterial_map)
  qed
qed

lemma db_getMaterial_same:
  assumes "db_getMaterial (it_materialId t) d = Some r"
  shows "db_getMaterial (it_materialId t) (snd (db_createMaterialTransaction dbNow now t d)) =
           Some (r\<lparr> m_quantity := newQuantity r t, m_lastUpdated := now \<rparr>)"
  using assms db_getMaterial_SomeD(2) [OF assms]
  by (simp add: db_getMaterial_createMaterialTransaction)

lemma db_materials_missing:
  assumes "db_getMaterial (it_materialId t) d = None"
  shows "tbl_materials (snd (db_createMaterialTransaction dbNow now t d)) = tbl_materials d"
  using assms by (simp add: db_materials_createMaterialTransaction)

subsection \<open>Every method of the interface\<close>

lemmas operation_defs =
  createSite_def updateSite_def deleteSite_def createMaterial_def updateMaterial_def
  deleteMaterial_def createWorker_def updateWorker_def deleteWorker_def createAttendance_def
  updateAttendance_def createExpense_def updateExpense_def deleteExpense_def createPhoto_def
  deletePhoto_def createNote_def updateNote_def deleteNote_def createUser_def

lemma materialTransactions_exec:
  "materialTransactions (exec now op s) =
     (case op of
        CreateMaterialTransaction t \<Rightarrow>
          Map_set (materialTransactionId s) (withId t (materialTransactionId s))
            (materialTransactions s)
      | _ \<Rightarrow> materialTransactions s)"
  by (cases op)
     (simp_all add: operation_defs fields_createMaterialTransaction Let_def
        split: option.splits prod.splits)

lemma materialTransactionId_exec:
  "materialTransactionId (exec now op s) =
     (case op of
        CreateMaterialTransaction t \<Rightarrow> materialTransactionId s + 1
      | _ \<Rightarrow> materialTransactionId s)"
  by (cases op)
     (simp_all add: operation_defs fields_createMaterialTransaction Let_def
        split: option.splits prod.splits)

lemma transactionIdsBelow_exec:
  assumes "transactionIdsBelow s"
  shows "transactionIdsBelow (exec now op s)"
proof -
  have "Map_get (materialTransactions s) (materialTransactionId s) = None"
    using assms unfolding transactionIdsBelow_def by (rule Map_get_fresh)
  with assms show ?thesis
    unfolding transactionIdsBelow_def materialTransactions_exec materialTransactionId_exec
    by (cases op) (auto simp: Map_set_absent list_all_iff)
qed

lemma transactionIdsBelow_execAll:
  "transactionIdsBelow s \<Longrightarrow> transactionIdsBelow (execAll cs s)"
  by (induction cs arbitrary: s) (simp_all add: transactionIdsBelow_exec)

lemma materialsKeyed_exec:
  assumes "materialsKeyed s"
  shows "materialsKeyed (exec now op s)"
proof (cases op)
  case (CreateMaterial material)
  with assms show ?thesis
    by (simp add: materialsKeyed_def createMaterial_def Let_def list_all_Map_set)
next
  case (UpdateMaterial i material)
  show ?thesis
  proof (cases "Map_get (materials s) i")
    case None
    with assms UpdateMaterial show ?thesis by (simp add: updateMaterial_def)
  next
    case (Some existingMaterial)
    have "m_id existingMaterial = i" using assms Some by (rule keyed_lookup)
    with assms UpdateMaterial Some show ?thesis
      by (simp add: materialsKeyed_def updateMaterial_def Let_def list_all_Map_set
            spreadMaterial_def)
  qed
next
  case (DeleteMaterial i)
  with assms show ?thesis
    by (simp add: materialsKeyed_def deleteMaterial_def Map_delete_def list_all_iff)
next
  case (CreateMaterialTransaction t)
  with assms show ?thesis by (simp add: keyed_createMaterialTransaction)
qed (use assms in \<open>simp_all add: materialsKeyed_def operation_defs Let_def
       split: option.splits prod.splits\<close>)

subsection \<open>The seeded stores\<close>

lemma upt_0_3: "[0 ..< 3] = [0, 1, 2 :: nat]"
  by (simp add: upt_rec numeral_3_eq_3 numeral_2_eq_2)

lemma materials_newMemStorage:
  "materials (newMemStorage clock) =
     [(1, cement (clock 0)), (2, sand (clock 1)), (3, steel (clock 2))]"
  by (simp add: newMemStorage_def createInitialData_def emptyMemStorage_def createSite_def
        createUser_def createMaterial_def createWorker_def createExpense_def sampleMaterials_def
        sampleWorkers_def sampleExpenses_def Let_def upt_0_3 cement_def sand_def steel_def)

lemma materialTransactions_newMemStorage:
  "materialTransactions (newMemStorage clock) = []" "materialTransactionId (newMemStorage clock) = 1"
  by (simp_all add: newMemStorage_def createInitialData_def emptyMemStorage_def createSite_def
        createUser_def createMaterial_def createWorker_def createExpense_def sampleMaterials_def
        sampleWorkers_def sampleExpenses_def Let_def upt_0_3)

lemma materialsKeyed_newMemStorage: "materialsKeyed (newMemStorage clock)"
  by (simp add: materialsKeyed_def materials_newMemStorage cement_def sand_def steel_def)

lemma transactionIdsBelow_newMemStorage: "transactionIdsBelow (newMemStorage clock)"
  by (simp add: transactionIdsBelow_def materialTransactions_newMemStorage)

lemma seededDatabase_tables:
  "tbl_materials (seededDatabase clock) = [cement (clock 0), sand (clock 1), steel (clock 2)]"
  "tbl_materialTransactions (seededDatabase clock) = []"
  "seq_materialTransactions (seededDatabase clock) = 1"
  by (simp_all add: seededDatabase_def emptyDatabase_def db_createMaterial_def sampleMaterials_def
        Let_def upt_0_3 cement_def sand_def steel_def)

lemma db_getMaterial_seeded: "db_getMaterial 1 (seededDatabase clock) = Some (cement (clock 0))"
  by (simp add: db_getMaterial_def seededDatabase_tables cement_def sand_def steel_def)

lemma reachable_invariants:
  "materialsKeyed (execAll cs (newMemStorage clock))"
  "transactionIdsBelow (execAll cs (newMemStorage clock))"
proof -
  have "materialsKeyed s \<Longrightarrow> materialsKeyed (execAll cs s)" for s
    by (induction cs arbitrary: s) (simp_all add: materialsKeyed_exec)
  then show "materialsKeyed (execAll cs (newMemStorage clock))"
    using materialsKeyed_newMemStorage by blast
  show "transactionIdsBelow (execAll cs (newMemStorage clock))"
    using transactionIdsBelow_newMemStorage by (rule transactionIdsBelow_execAll)
qed

subsection \<open>The clamping invariant\<close>

lemma step_nonneg:
  assumes "materialsKeyed s" "meetsInputConstraints t"
    and "Map_get (materials s) k = Some m" "0 \<le> m_quantity m"
  shows "\<exists>m'. Map_get (materials (snd (createMaterialTransaction now t s))) k = Some m'
           \<and> 0 \<le> m_quantity m'"
  using assms
  by (auto simp: materials_createMaterialTransaction Map_get_set newQuantity_nonneg
        split: option.splits)

lemma run_nonneg:
  assumes "materialsKeyed s" "\<forall>c \<in> set cs. meetsInputConstraints (snd c)"
    and "Map_get (materials s) k = Some m" "0 \<le> m_quantity m"
  shows "\<exists>m'. Map_get (materials (createMaterialTransactions cs s)) k = Some m'
           \<and> 0 \<le> m_quantity m'"
  using assms
proof (induction cs arbitrary: s m)
  case Nil
  then show ?case by simp
next
  case (Cons c cs)
  obtain m1 where m1: "Map_get (materials (snd (createMaterialTransaction (fst c) (snd c) s))) k = Some m1"
     "0 \<le> m_quantity m1"
    using step_nonneg [of s "snd c" k m "fst c"] Cons.prems by auto
  have "materialsKeyed (snd (createMaterialTransaction (fst c) (snd c) s))"
    using Cons.prems(1) by (rule keyed_createMaterialTransaction)
  from Cons.IH [OF this _ m1] Cons.prems(2) show ?case by simp
qed

lemma db_step_nonneg:
  assumes "meetsInputConstraints t" "db_getMaterial k d = Some m" "0 \<le> m_quantity m"
  shows "\<exists>m'. db_getMaterial k (snd (db_createMaterialTransaction dbNow now t d)) = Some m'
           \<and> 0 \<le> m_quantity m'"
proof (cases "db_getMaterial (it_materialId t) d")
  case None
  with assms show ?thesis by (simp add: db_getMaterial_createMaterialTransaction)
next
  case (Some m0)
  show ?thesis
  proof (cases "k = it_materialId t")
    case True
    with Some assms have "m0 = m" by simp
    with Some assms True show ?thesis
      using db_getMaterial_SomeD(2) [OF assms(2)]
      by (simp add: db_getMaterial_createMaterialTransaction newQuantity_nonneg)
  next
    case False
    with Some assms show ?thesis
      using db_getMaterial_SomeD(2) [OF assms(2)]
      by (simp add: db_getMaterial_createMaterialTransaction)
  qed
qed

lemma db_run_nonneg:
  assumes "\<forall>c \<in> set cs. meetsInputConstraints (snd (snd c))"
    and "db_getMaterial k d = Some m" "0 \<le> m_quantity m"
  shows "\<exists>m'. db_getMaterial k (db_createMaterialTransactions cs d) = Some m'
           \<and> 0 \<le> m_quantity m'"
  using assms
proof (induction cs arbitrary: d m)
  case Nil
  then show ?case by simp
next
  case (Cons c cs)
  obtain m1 where m1:
    "db_getMaterial k (snd (db_createMaterialTransaction (fst c) (fst (snd c)) (snd (snd c)) d)) = Some m1"
    "0 \<le> m_quantity m1"
    using db_step_nonneg [of "snd (snd c)" k d m "fst c" "fst (snd c)"] Cons.prems by auto
  from Cons.IH [OF _ m1] Cons.prems(1) show ?case by simp
qed

text \<open>
  Claim C1. A material whose quantity is at least 0 still has a quantity of at least 0 after
  any sequence of \<^verbatim>\<open>createMaterialTransaction\<close> calls whose inputs meet the stated
  constraints (type \<^verbatim>\<open>"added"\<close> or \<^verbatim>\<open>"used"\<close>, quantity above 0), whichever materials the
  calls name; the material is still there. This holds for \<^verbatim>\<open>MemStorage\<close> and for
  \<^verbatim>\<open>DatabaseStorage\<close>.
\<close>

theorem quantity_remains_nonnegative:
  "(materialsKeyed s \<and> (\<forall>c \<in> set cs. meetsInputConstraints (snd c))
      \<and> getMaterial k s = Some m \<and> 0 \<le> m_quantity m
    \<longrightarrow> (\<exists>m'. getMaterial k (createMaterialTransactions cs s) = Some m' \<and> 0 \<le> m_quantity m'))
   \<and> ((\<forall>c \<in> set ds. meetsInputConstraints (snd (snd c)))
      \<and> db_getMaterial k d = Some r \<and> 0 \<le> m_quantity r
    \<longrightarrow> (\<exists>r'. db_getMaterial k (db_createMaterialTransactions ds d) = Some r'
           \<and> 0 \<le> m_quantity r'))"
  using run_nonneg [of s cs k m] db_run_nonneg [of ds k d r]
  by (simp add: getMaterial_def)

theorem quantity_remains_nonnegative_witness:
  "materialsKeyed (newMemStorage sampleClock)
   \<and> meetsInputConstraints (stockMove 1 ''used'' 20) \<and> meetsInputConstraints (stockMove 1 ''added'' 5)
   \<and> getMaterial 1 (newMemStorage sampleClock) = Some (cement (sampleClock 0))
   \<and> 0 \<le> m_quantity (cement (sampleClock 0))
   \<and> (\<exists>m'. getMaterial 1
              (createMaterialTransactions
                 [(sampleClock 5, stockMove 1 ''used'' 20), (sampleClock 6, stockMove 1 ''added'' 5)]
                 (newMemStorage sampleClock)) = Some m'
           \<and> 0 \<le> m_quantity m')
   \<and> db_getMaterial 1 (seededDatabase sampleClock) = Some (cement (sampleClock 0))
   \<and> (\<exists>r'. db_getMaterial 1
              (db_createMaterialTransactions
                 [(sampleClock 5, sampleClock 5, stockMove 1 ''used'' 20),
                  (sampleClock 6, sampleClock 6, stockMove 1 ''added'' 5)]
                 (seededDatabase sampleClock)) = Some r'
           \<and> 0 \<le> m_quantity r')"
proof -
  have c: "meetsInputConstraints (stockMove 1 ''used'' 20)"
          "meetsInputConstraints (stockMove 1 ''added'' 5)"
    by (simp_all add: meetsInputConstraints_def stockMove_def)
  have g: "getMaterial 1 (newMemStorage sampleClock) = Some (cement (sampleClock 0))"
    by (simp add: getMaterial_def materials_newMemStorage)
  have q: "0 \<le> m_quantity (cement (sampleClock 0))" by (simp add: cement_def)
  note k = materialsKeyed_newMemStorage [of sampleClock]
  note dg = db_getMaterial_seeded [of sampleClock]
  show ?thesis
    using quantity_remains_nonnegative
      [of "newMemStorage sampleClock"
          "[(sampleClock 5, stockMove 1 ''used'' 20), (sampleClock 6, stockMove 1 ''added'' 5)]"
          1 "cement (sampleClock 0)"
          "[(sampleClock 5, sampleClock 5, stockMove 1 ''used'' 20),
            (sampleClock 6, sampleClock 6, stockMove 1 ''added'' 5)]"
          "seededDatabase sampleClock" "cement (sampleClock 0)"]
      c g q k dg
    by simp
qed

subsection \<open>Recording usage\<close>



subsection \<open>Adding and then using the same quantity\<close>

text \<open>
  In the arithmetic of this embedding, which is exact, adding \<open>q\<close> to a material and then
  using \<open>q\<close> of it gives back the quantity \<open>c\<close> it had, provided \<open>0 < q \<le> c\<close>. The fact is
  about the ledger rule only. The stored quantities are binary floating-point numbers, and
  there the two roundings need not cancel: \<^verbatim>\<open>(0.3 + 0.1) - 0.1\<close> evaluates to
  \<^verbatim>\<open>0.30000000000000004\<close>. Nothing is derived here about the value that the program stores
  after such a round trip.
\<close>

lemma add_then_use_exact_arithmetic:
  assumes "materialsKeyed s" and "getMaterial k s = Some m"
    and "0 < q" and "q \<le> m_quantity m"
    and a: "it_materialId a = k" "it_transactionType a = ''added''" "it_quantity a = q"
    and u: "it_materialId u = k" "it_transactionType u = ''used''" "it_quantity u = q"
  shows "\<exists>m'. getMaterial k
                (snd (createMaterialTransaction now' u (snd (createMaterialTransaction now a s))))
              = Some m'
          \<and> m_quantity m' = m_quantity m"
proof -
  let ?s1 = "snd (createMaterialTransaction now a s)"
  let ?m1 = "m\<lparr> m_quantity := newQuantity m a, m_lastUpdated := now \<rparr>"
  have k1: "materialsKeyed ?s1" using assms(1) by (rule keyed_createMaterialTransaction)
  have g1: "getMaterial (it_materialId u) ?s1 = Some ?m1"
    using getMaterial_createMaterialTransaction [of s a m now] assms(1,2) a u by simp
  have "getMaterial (it_materialId u) (snd (createMaterialTransaction now' u ?s1)) =
          Some (?m1\<lparr> m_quantity := newQuantity ?m1 u, m_lastUpdated := now' \<rparr>)"
    using k1 g1 by (rule getMaterial_createMaterialTransaction)
  moreover have "newQuantity ?m1 u = m_quantity m"
    using assms(3,4) a u by (simp add: newQuantity_used newQuantity_added)
  ultimately show ?thesis using u by simp
qed

subsection \<open>Stock classification\<close>







subsection \<open>A transaction on a missing material\<close>

text \<open>
  Claim C5. When the \<^verbatim>\<open>materialId\<close> of the input names no stored material, the transaction
  is still stored and returned (under the next id, with the fields as given), the materials
  are exactly as before, and so is every other map of the store; the method has no failing
  branch.
\<close>

theorem transaction_on_missing_material:
  "(getMaterial (it_materialId t) s = None
    \<longrightarrow> fst (createMaterialTransaction now t s) = withId t (materialTransactionId s)
        \<and> Map_get (materialTransactions (snd (createMaterialTransaction now t s)))
              (materialTransactionId s) = Some (fst (createMaterialTransaction now t s))
        \<and> materials (snd (createMaterialTransaction now t s)) = materials s
        \<and> snd (createMaterialTransaction now t s) =
              s\<lparr> materialTransactionId := materialTransactionId s + 1,
                 materialTransactions :=
                   materialTransactions (snd (createMaterialTransaction now t s)) \<rparr>)
   \<and> (db_getMaterial (it_materialId t) d = None
    \<longrightarrow> t_materialId (fst (db_createMaterialTransaction dbNow now t d)) = it_materialId t
        \<and> t_quantity (fst (db_createMaterialTransaction dbNow now t d)) = it_quantity t
        \<and> tbl_materialTransactions (snd (db_createMaterialTransaction dbNow now t d)) =
              tbl_materialTransactions d @ [fst (db_createMaterialTransaction dbNow now t d)]
        \<and> tbl_materials (snd (db_createMaterialTransaction dbNow now t d)) = tbl_materials d)"
proof (intro conjI impI)
  assume a: "getMaterial (it_materialId t) s = None"
  show "fst (createMaterialTransaction now t s) = withId t (materialTransactionId s)"
    by (simp add: fields_createMaterialTransaction)
  show "Map_get (materialTransactions (snd (createMaterialTransaction now t s)))
          (materialTransactionId s) = Some (fst (createMaterialTransaction now t s))"
    by (rule stored_createMaterialTransaction)
  from a show "materials (snd (createMaterialTransaction now t s)) = materials s"
    by (simp add: materials_missing)
  from a show "snd (createMaterialTransaction now t s) =
      s\<lparr> materialTransactionId := materialTransactionId s + 1,
         materialTransactions := materialTransactions (snd (createMaterialTransaction now t s)) \<rparr>"
    by (simp add: materials_missing)
next
  assume b: "db_getMaterial (it_materialId t) d = None"
  show "t_materialId (fst (db_createMaterialTransaction dbNow now t d)) = it_materialId t"
    by (simp add: db_fields_createMaterialTransaction withId_def)
  show "t_quantity (fst (db_createMaterialTransaction dbNow now t d)) = it_quantity t"
    by (simp add: db_fields_createMaterialTransaction withId_def)
  show "tbl_materialTransactions (snd (db_createMaterialTransaction dbNow now t d)) =
          tbl_materialTransactions d @ [fst (db_createMaterialTransaction dbNow now t d)]"
    by (rule db_fields_createMaterialTransaction)
  from b show "tbl_materials (snd (db_createMaterialTransaction dbNow now t d)) = tbl_materials d"
    by (rule db_materials_missing)
qed

theorem transaction_on_missing_material_witness:
  "getMaterial 7 (newMemStorage sampleClock) = None
   \<and> fst (createMaterialTransaction (sampleClock 5) (stockMove 7 ''used'' 20)
            (newMemStorage sampleClock)) = withId (stockMove 7 ''used'' 20) 1
   \<and> materials (snd (createMaterialTransaction (sampleClock 5) (stockMove 7 ''used'' 20)
                       (newMemStorage sampleClock)))
        = [(1, cement (sampleClock 0)), (2, sand (sampleClock 1)), (3, steel (sampleClock 2))]
   \<and> db_getMaterial 7 (seededDatabase sampleClock) = None
   \<and> tbl_materials (snd (db_createMaterialTransaction (sampleClock 5) (sampleClock 5)
                           (stockMove 7 ''used'' 20) (seededDatabase sampleClock)))
        = [cement (sampleClock 0), sand (sampleClock 1), steel (sampleClock 2)]"
proof -
  have g: "getMaterial 7 (newMemStorage sampleClock) = None"
    by (simp add: getMaterial_def materials_newMemStorage)
  have dg: "db_getMaterial 7 (seededDatabase sampleClock) = None"
    by (simp add: db_getMaterial_def seededDatabase_tables cement_def sand_def steel_def)
  have i: "it_materialId (stockMove 7 ''used'' 20) = 7" by (simp add: stockMove_def)
  show ?thesis
    using transaction_on_missing_material
      [where t = "stockMove 7 ''used'' 20" and s = "newMemStorage sampleClock"
         and now = "sampleClock 5" and d = "seededDatabase sampleClock" and dbNow = "sampleClock 5"]
      g dg i
    by (simp add: materialTransactions_newMemStorage materials_newMemStorage
          seededDatabase_tables)
qed

subsection \<open>Low stock and deletion\<close>

text \<open>
  Claim C6. \<^verbatim>\<open>getLowStockMaterials(siteId)\<close> returns the stored materials of that site whose
  quantity is strictly below their \<^verbatim>\<open>minStockLevel\<close>, and nothing else: a material is in the
  result exactly when it is stored, belongs to the site and is below its threshold. In
  \<^verbatim>\<open>MemStorage\<close> the result is the list of \<^verbatim>\<open>getMaterials(siteId)\<close> restricted to the materials
  below their threshold. The route \<^verbatim>\<open>/api/sites/:siteId/materials/low-stock\<close> sends the result
  as it is.
\<close>

theorem getLowStockMaterials_exact:
  "set (getLowStockMaterials site s) =
     {m \<in> set (Map_values (materials s)). m_siteId m = site \<and> m_quantity m < m_minStockLevel m}
   \<and> getLowStockMaterials site s =
       filter (\<lambda>m. m_quantity m < m_minStockLevel m) (getMaterials site s)
   \<and> set (db_getLowStockMaterials site d) =
     {m \<in> set (tbl_materials d). m_siteId m = site \<and> m_quantity m < m_minStockLevel m}"
  by (auto simp: getLowStockMaterials_def getMaterials_def db_getLowStockMaterials_def
        intro: filter_cong)

text \<open>
  Claim C7. \<^verbatim>\<open>deleteMaterial(id)\<close> changes the materials only: the transactions, those of
  the deleted material among them, are the same before and after; the material \<open>id\<close> is
  gone and every other material is as it was. The schema declares no foreign key between
  the two tables, so the database deletes nothing else either.
\<close>

theorem deleteMaterial_keeps_transactions:
  "materialTransactions (snd (deleteMaterial i s)) = materialTransactions s
   \<and> snd (deleteMaterial i s) = s\<lparr> materials := materials (snd (deleteMaterial i s)) \<rparr>
   \<and> getMaterial i (snd (deleteMaterial i s)) = None
   \<and> (\<forall>k. k \<noteq> i \<longrightarrow> getMaterial k (snd (deleteMaterial i s)) = getMaterial k s)
   \<and> tbl_materialTransactions (snd (db_deleteMaterial i d)) = tbl_materialTransactions d
   \<and> set (tbl_materials (snd (db_deleteMaterial i d))) = {m \<in> set (tbl_materials d). m_id m \<noteq> i}"
proof -
  have m: "materials (snd (deleteMaterial i s)) = snd (Map_delete i (materials s))"
    by (simp add: deleteMaterial_def split: prod.splits)
  show ?thesis
    by (auto simp: m getMaterial_def Map_get_delete)
       (auto simp: deleteMaterial_def db_deleteMaterial_def Let_def split: prod.splits)
qed

theorem deleteMaterial_keeps_transactions_witness:
  "materialTransactions
     (snd (deleteMaterial 1
        (snd (createMaterialTransaction (sampleClock 5) (stockMove 1 ''used'' 20)
                (newMemStorage sampleClock)))))
     = [(1, withId (stockMove 1 ''used'' 20) 1)]
   \<and> t_materialId (withId (stockMove 1 ''used'' 20) 1) = 1
   \<and> getMaterial 1
        (snd (deleteMaterial 1
           (snd (createMaterialTransaction (sampleClock 5) (stockMove 1 ''used'' 20)
                   (newMemStorage sampleClock))))) = None
   \<and> (2::int) \<noteq> 1
   \<and> getMaterial 2
        (snd (deleteMaterial 1
           (snd (createMaterialTransaction (sampleClock 5) (stockMove 1 ''used'' 20)
                   (newMemStorage sampleClock))))) = Some (sand (sampleClock 1))"
proof -
  let ?s = "snd (createMaterialTransaction (sampleClock 5) (stockMove 1 ''used'' 20)
                   (newMemStorage sampleClock))"
  have t: "materialTransactions ?s = [(1, withId (stockMove 1 ''used'' 20) 1)]"
    by (simp add: fields_createMaterialTransaction materialTransactions_newMemStorage)
  have i: "it_materialId (stockMove 1 ''used'' 20) = 1" by (simp add: stockMove_def)
  have g: "getMaterial 2 ?s = Some (sand (sampleClock 1))"
    using materialsKeyed_newMemStorage [of sampleClock]
    by (simp add: getMaterial_def materials_createMaterialTransaction materials_newMemStorage
          i Map_get_set)
  show ?thesis
    using deleteMaterial_keeps_transactions [where i = 1 and s = ?s] t g
    by (simp add: withId_def stockMove_def)
qed

subsection \<open>The ledger is append-only\<close>

lemma append_exec:
  assumes "transactionIdsBelow s"
  shows "\<exists>added. materialTransactions (exec now op s) = materialTransactions s @ added"
proof -
  have "Map_get (materialTransactions s) (materialTransactionId s) = None"
    using assms unfolding transactionIdsBelow_def by (rule Map_get_fresh)
  then show ?thesis
    unfolding materialTransactions_exec
    by (cases op) (simp_all add: Map_set_absent)
qed

lemma append_execAll:
  assumes "transactionIdsBelow s"
  shows "\<exists>added. materialTransactions (execAll cs s) = materialTransactions s @ added"
  using assms
proof (induction cs arbitrary: s)
  case Nil
  then show ?case by simp
next
  case (Cons c cs)
  obtain a1 where a1: "materialTransactions (exec (fst c) (snd c) s) = materialTransactions s @ a1"
    using append_exec [OF Cons.prems] by blast
  have "transactionIdsBelow (exec (fst c) (snd c) s)"
    using Cons.prems by (rule transactionIdsBelow_exec)
  from Cons.IH [OF this] obtain a2 where
    "materialTransactions (execAll cs (exec (fst c) (snd c) s)) =
       materialTransactions (exec (fst c) (snd c) s) @ a2"
    by blast
  with a1 show ?case by simp
qed

text \<open>
  Claim C8. Once a transaction is stored, no method of the storage interface modifies or
  removes it: after any run of calls the map of transactions is the map before with entries
  added at its end, and every key that was present yields the record it yielded before.
  The assumption on the store holds after the constructor and after every call.
\<close>

theorem ledger_append_only:
  "transactionIdsBelow s \<longrightarrow>
     (\<exists>added. materialTransactions (execAll cs s) = materialTransactions s @ added)
     \<and> (\<forall>k tr. Map_get (materialTransactions s) k = Some tr
            \<longrightarrow> Map_get (materialTransactions (execAll cs s)) k = Some tr)"
proof
  assume b: "transactionIdsBelow s"
  then obtain added where a: "materialTransactions (execAll cs s) = materialTransactions s @ added"
    using append_execAll by blast
  have "\<forall>k tr. Map_get (materialTransactions s) k = Some tr
            \<longrightarrow> Map_get (materialTransactions (execAll cs s)) k = Some tr"
    by (simp add: a map_add_Some_iff)
  with a show "(\<exists>added. materialTransactions (execAll cs s) = materialTransactions s @ added)
     \<and> (\<forall>k tr. Map_get (materialTransactions s) k = Some tr
            \<longrightarrow> Map_get (materialTransactions (execAll cs s)) k = Some tr)"
    by blast
qed

theorem ledger_append_only_witness:
  "transactionIdsBelow
     (snd (createMaterialTransaction (sampleClock 5) (stockMove 1 ''used'' 20)
             (newMemStorage sampleClock)))
   \<and> Map_get (materialTransactions
        (snd (createMaterialTransaction (sampleClock 5) (stockMove 1 ''used'' 20)
                (newMemStorage sampleClock)))) 1
       = Some (withId (stockMove 1 ''used'' 20) 1)
   \<and> Map_get (materialTransactions
        (execAll
           [(sampleClock 6, DeleteMaterial 1),
            (sampleClock 7, CreateMaterialTransaction (stockMove 1 ''added'' 5)),
            (sampleClock 8, UpdateMaterial 2 (quantityOnly 0))]
           (snd (createMaterialTransaction (sampleClock 5) (stockMove 1 ''used'' 20)
                   (newMemStorage sampleClock))))) 1
       = Some (withId (stockMove 1 ''used'' 20) 1)"
proof -
  let ?s = "snd (createMaterialTransaction (sampleClock 5) (stockMove 1 ''used'' 20)
                   (newMemStorage sampleClock))"
  have t: "materialTransactions ?s = [(1, withId (stockMove 1 ''used'' 20) 1)]"
          "materialTransactionId ?s = 2"
    by (simp_all add: fields_createMaterialTransaction materialTransactions_newMemStorage)
  have b: "transactionIdsBelow ?s"
    by (simp add: transactionIdsBelow_def t)
  show ?thesis
    using ledger_append_only
      [where s = ?s
         and cs = "[(sampleClock 6, DeleteMaterial 1),
                    (sampleClock 7, CreateMaterialTransaction (stockMove 1 ''added'' 5)),
                    (sampleClock 8, UpdateMaterial 2 (quantityOnly 0))]"]
      b t
    by simp
qed

subsection \<open>Inputs that the insert schema lets through\<close>

text \<open>
  Claim C9. \<^verbatim>\<open>transactionType\<close> is any string for the insert schema. For an existing material
  and a type that is neither \<^verbatim>\<open>"added"\<close> nor \<^verbatim>\<open>"used"\<close>, \<^verbatim>\<open>createMaterialTransaction\<close> of
  \<^verbatim>\<open>MemStorage\<close> stores and returns the transaction, and the material is rewritten with the
  quantity it had and with \<^verbatim>\<open>lastUpdated\<close> set to the time of the call.
\<close>

theorem other_type_refreshes_lastUpdated:
  "materialsKeyed s \<and> getMaterial (it_materialId t) s = Some m
     \<and> it_transactionType t \<noteq> ''added'' \<and> it_transactionType t \<noteq> ''used''
   \<longrightarrow> fst (createMaterialTransaction now t s) = withId t (materialTransactionId s)
       \<and> Map_get (materialTransactions (snd (createMaterialTransaction now t s)))
             (materialTransactionId s) = Some (fst (createMaterialTransaction now t s))
       \<and> (\<exists>m'. getMaterial (it_materialId t) (snd (createMaterialTransaction now t s)) = Some m'
              \<and> m' = m\<lparr> m_lastUpdated := now \<rparr>
              \<and> m_quantity m' = m_quantity m \<and> m_lastUpdated m' = now)"
  by (simp add: fields_createMaterialTransaction Map_get_set
        getMaterial_createMaterialTransaction newQuantity_other)

theorem other_type_refreshes_lastUpdated_witness:
  "materialsKeyed (newMemStorage sampleClock)
   \<and> getMaterial 1 (newMemStorage sampleClock) = Some (cement (sampleClock 0))
   \<and> ''returned'' \<noteq> ''added'' \<and> ''returned'' \<noteq> ''used''
   \<and> fst (createMaterialTransaction (sampleClock 5) (stockMove 1 ''returned'' 20)
            (newMemStorage sampleClock)) = withId (stockMove 1 ''returned'' 20) 1
   \<and> getMaterial 1 (snd (createMaterialTransaction (sampleClock 5) (stockMove 1 ''returned'' 20)
                            (newMemStorage sampleClock)))
        = Some ((cement (sampleClock 0))\<lparr> m_lastUpdated := sampleClock 5 \<rparr>)"
proof -
  have g: "getMaterial 1 (newMemStorage sampleClock) = Some (cement (sampleClock 0))"
    by (simp add: getMaterial_def materials_newMemStorage)
  have i: "it_materialId (stockMove 1 ''returned'' 20) = 1"
          "it_transactionType (stockMove 1 ''returned'' 20) = ''returned''"
    by (simp_all add: stockMove_def)
  note k = materialsKeyed_newMemStorage [of sampleClock]
  show ?thesis
    using other_type_refreshes_lastUpdated
      [of "newMemStorage sampleClock" "stockMove 1 ''returned'' 20" "cement (sampleClock 0)"
          "sampleClock 5"]
      g i k
    by (simp add: materialTransactions_newMemStorage)
qed

text \<open>
  Claim C10. \<^verbatim>\<open>quantity\<close> is any number for the insert schema, and the \<^verbatim>\<open>"added"\<close> branch
  does not clamp: an \<^verbatim>\<open>"added"\<close> transaction whose quantity \<open>q\<close> is below \<open>- c\<close> leaves the
  material with the quantity \<open>c + q\<close>, which is negative. The instance after the theorem
  adds -20 to the 15 bags of cement and leaves -5.
\<close>

theorem added_negative_goes_below_zero:
  "(materialsKeyed s \<and> getMaterial (it_materialId t) s = Some m \<and> it_transactionType t = ''added''
      \<and> m_quantity m + it_quantity t < 0
    \<longrightarrow> (\<exists>m'. getMaterial (it_materialId t) (snd (createMaterialTransaction now t s)) = Some m'
            \<and> m_quantity m' = m_quantity m + it_quantity t \<and> m_quantity m' < 0))
   \<and> (db_getMaterial (it_materialId t) d = Some r \<and> it_transactionType t = ''added''
      \<and> m_quantity r + it_quantity t < 0
    \<longrightarrow> (\<exists>r'. db_getMaterial (it_materialId t) (snd (db_createMaterialTransaction dbNow now t d))
              = Some r'
            \<and> m_quantity r' = m_quantity r + it_quantity t \<and> m_quantity r' < 0))"
  by (simp add: getMaterial_createMaterialTransaction db_getMaterial_same newQuantity_added)

theorem added_negative_goes_below_zero_witness:
  "materialsKeyed (newMemStorage sampleClock)
   \<and> getMaterial 1 (newMemStorage sampleClock) = Some (cement (sampleClock 0))
   \<and> m_quantity (cement (sampleClock 0)) + it_quantity (stockMove 1 ''added'' (- 20)) < 0
   \<and> (\<exists>m'. getMaterial 1 (snd (createMaterialTransaction (sampleClock 5)
                                   (stockMove 1 ''added'' (- 20)) (newMemStorage sampleClock)))
             = Some m' \<and> m_quantity m' = - 5)
   \<and> db_getMaterial 1 (seededDatabase sampleClock) = Some (cement (sampleClock 0))
   \<and> (\<exists>r'. db_getMaterial 1 (snd (db_createMaterialTransaction (sampleClock 5) (sampleClock 5)
                                   (stockMove 1 ''added'' (- 20)) (seededDatabase sampleClock)))
             = Some r' \<and> m_quantity r' = - 5)"
proof -
  have g: "getMaterial 1 (newMemStorage sampleClock) = Some (cement (sampleClock 0))"
    by (simp add: getMaterial_def materials_newMemStorage)
  have i: "it_materialId (stockMove 1 ''added'' (- 20)) = 1"
          "it_transactionType (stockMove 1 ''added'' (- 20)) = ''added''"
          "it_quantity (stockMove 1 ''added'' (- 20)) = - 20"
    by (simp_all add: stockMove_def)
  have q: "m_quantity (cement (sampleClock 0)) = 15" by (simp add: cement_def)
  note k = materialsKeyed_newMemStorage [of sampleClock]
  note dg = db_getMaterial_seeded [of sampleClock]
  show ?thesis
    using added_negative_goes_below_zero
      [where s = "newMemStorage sampleClock" and t = "stockMove 1 ''added'' (- 20)"
         and m = "cement (sampleClock 0)" and now = "sampleClock 5"
         and d = "seededDatabase sampleClock" and r = "cement (sampleClock 0)"
         and dbNow = "sampleClock 5"]
      g i q k dg
    by auto
qed

end
